theory Spec2Isabelle
  imports Main "HOL-Library.AList"
begin

section \<open>The RankVectors SDK (src/index.ts) as a shallow embedding\<close>

text \<open>
  The SDK is one class, \<^verbatim>\<open>RankVectorsSDK\<close>, with two private fields, a private
  \<^verbatim>\<open>request\<close> method that wraps \<^verbatim>\<open>fetch\<close>, and eleven public methods that build
  an endpoint and a body and call \<^verbatim>\<open>request\<close>.

  JavaScript strings are modelled as \<^typ>\<open>string\<close>, read as the UTF-8 bytes of a
  well-formed string. Exceptions and rejected promises are the left summand of a sum.
\<close>

subsection \<open>Errors\<close>

text \<open>
  The source throws plain \<^verbatim>\<open>Error\<close> objects at two places; they are kept apart by
  the place that throws: \<open>InvalidConfiguration\<close> is \<^verbatim>\<open>throw new Error('API key is required')\<close>
  of the constructor, \<open>RequestFailed\<close> is the \<^verbatim>\<open>throw new Error(...)\<close> of \<^verbatim>\<open>request\<close>.
  The other three are the errors the JavaScript runtime raises by itself: a property read
  on \<^verbatim>\<open>null\<close> or \<^verbatim>\<open>undefined\<close> and a failed conversion to a primitive (TypeError; also
  what \<^verbatim>\<open>fetch\<close> rejects with on a network failure), a body that is not JSON
  (SyntaxError), \<^verbatim>\<open>toISOString\<close> on an invalid date (RangeError). Their messages are
  engine-specific and not modelled.
\<close>

datatype error =
    InvalidConfiguration string
  | RequestFailed string
  | TypeError
  | SyntaxError
  | RangeError

subsection \<open>JavaScript values\<close>

text \<open>
  The plain-data values of JavaScript: what \<^verbatim>\<open>JSON.parse\<close> returns, and \<^verbatim>\<open>undefined\<close>.
  An object is the list of its own properties in enumeration order; the keys of a parsed
  object are distinct. Numbers are a type parameter: the SDK never computes with a
  number, it only tests one for truth, and renders one as text.
\<close>

datatype 'n jsval =
    JUndefined
  | JNull
  | JBool bool
  | JNum 'n
  | JStr string
  | JArr "'n jsval list"
  | JObj "(string \<times> 'n jsval) list"

text \<open>
  What the SDK uses of the JavaScript runtime about numbers and dates:
  \<open>num_truthy n\<close> is \<^verbatim>\<open>Boolean(n)\<close> (false for \<^verbatim>\<open>0\<close>, \<^verbatim>\<open>-0\<close> and \<^verbatim>\<open>NaN\<close>),
  \<open>num_finite n\<close> is \<^verbatim>\<open>Number.isFinite(n)\<close>, \<open>num_toString n\<close> is \<^verbatim>\<open>n.toString()\<close>,
  \<open>date_toISOString d\<close> is \<^verbatim>\<open>d.toISOString()\<close>, which throws a RangeError (here
  \<open>None\<close>) on an invalid date.
\<close>

record ('n, 'd) runtime =
  num_truthy :: "'n \<Rightarrow> bool"
  num_finite :: "'n \<Rightarrow> bool"
  num_toString :: "'n \<Rightarrow> string"
  date_toISOString :: "'d \<Rightarrow> string option"

text \<open>Decimal digits of a natural number: how a template literal renders an HTTP status.\<close>

fun decimal :: "nat \<Rightarrow> string" where
  "decimal n =
     (if n < 10 then [''0123456789'' ! n]
      else decimal (n div 10) @ [''0123456789'' ! (n mod 10)])"

declare decimal.simps [simp del]

text \<open>
  A runtime for concrete runs: numbers are the integers (rendered in decimal, as
  JavaScript renders an integer of magnitude below \<open>10\<^sup>2\<^sup>1\<close>), a date is given by its
  ISO-8601 text, or is invalid.
\<close>

definition int_toString :: "int \<Rightarrow> string" where
  "int_toString i = (if i < 0 then ''-'' @ decimal (nat (- i)) else decimal (nat i))"

definition int_runtime :: "(int, string option) runtime" where
  "int_runtime =
     \<lparr> num_truthy = (\<lambda>i. i \<noteq> 0), num_finite = (\<lambda>i. True),
       num_toString = int_toString, date_toISOString = (\<lambda>d. d) \<rparr>"

text \<open>\<^verbatim>\<open>Boolean(v)\<close>: the falsy values are undefined, null, false, 0, NaN and the empty string.\<close>

fun truthy :: "('n, 'd) runtime \<Rightarrow> 'n jsval \<Rightarrow> bool" where
  "truthy rt JUndefined = False"
| "truthy rt JNull = False"
| "truthy rt (JBool b) = b"
| "truthy rt (JNum n) = num_truthy rt n"
| "truthy rt (JStr s) = (s \<noteq> [])"
| "truthy rt (JArr xs) = True"
| "truthy rt (JObj kvs) = True"

text \<open>
  \<^verbatim>\<open>v.k\<close> for the property names the SDK reads (none is an array index, \<^verbatim>\<open>length\<close>, or
  a name inherited from a prototype): a TypeError on null and undefined, the own property
  of an object, undefined on anything else.
\<close>

fun get_prop :: "'n jsval \<Rightarrow> string \<Rightarrow> error + 'n jsval" where
  "get_prop JUndefined k = Inl TypeError"
| "get_prop JNull k = Inl TypeError"
| "get_prop (JObj kvs) k = (case map_of kvs k of Some v \<Rightarrow> Inr v | None \<Rightarrow> Inr JUndefined)"
| "get_prop v k = Inr JUndefined"

subsection \<open>The client and its constructor\<close>

record RankVectorsSDK =
  apiKey :: string
  baseUrl :: string

text \<open>
  \<^verbatim>\<open>baseUrl.replace(/\/$/, '')\<close>: the pattern has no flag, so \<^verbatim>\<open>$\<close> is the end of the
  string and the one match, if any, is a final slash.
\<close>

definition strip_trailing_slash :: "string \<Rightarrow> string" where
  "strip_trailing_slash s = (if s \<noteq> [] \<and> last s = CHR ''/'' then butlast s else s)"

text \<open>
  One call of \<^verbatim>\<open>fetch\<close>: the URL and the fields of the init object the SDK fills.
\<close>

record fetch_call =
  url :: string
  http_method :: "string option"
  body :: "string option"
  headers :: "string \<rightharpoonup> string"

text \<open>
  \<^verbatim>\<open>new RankVectorsSDK(apiKey, baseUrl)\<close>. An argument that is absent (\<^verbatim>\<open>undefined\<close>) is
  \<open>None\<close>; \<^verbatim>\<open>!apiKey\<close> holds of an absent and of an empty key; the default of \<^verbatim>\<open>baseUrl\<close>
  is taken when the argument is absent. The second component is the trace of \<^verbatim>\<open>fetch\<close>
  calls, which the constructor leaves as it is.
\<close>

definition constructor ::
  "string option \<Rightarrow> string option \<Rightarrow> fetch_call list \<Rightarrow> (error + RankVectorsSDK) \<times> fetch_call list"
where
  "constructor apiKey_arg baseUrl_arg sent =
     (case apiKey_arg of
        None \<Rightarrow> (Inl (InvalidConfiguration ''API key is required''), sent)
      | Some k \<Rightarrow>
          if k = [] then (Inl (InvalidConfiguration ''API key is required''), sent)
          else
            let b = (case baseUrl_arg of None \<Rightarrow> ''https://rankvectors.com'' | Some u \<Rightarrow> u)
            in (Inr \<lparr> apiKey = k, baseUrl = strip_trailing_slash b \<rparr>, sent))"

subsection \<open>The private method \<^verbatim>\<open>request\<close>\<close>

text \<open>
  The \<^verbatim>\<open>options\<close> argument of \<^verbatim>\<open>request\<close>, with the three fields the SDK's callers
  and \<^verbatim>\<open>request\<close> itself look at; \<open>None\<close> is an absent field. No method of the SDK
  passes headers. Headers that are passed are modelled as a plain object from header name
  to value; the other two forms the type \<^verbatim>\<open>RequestInit\<close> admits, a \<^verbatim>\<open>Headers\<close> instance
  and an array of pairs, have no own property with a header's name for the spread to copy,
  and are not modelled.
\<close>

record request_init =
  ri_method :: "string option"
  ri_body :: "string option"
  ri_headers :: "(string \<rightharpoonup> string) option"

definition no_options :: request_init where
  "no_options = \<lparr> ri_method = None, ri_body = None, ri_headers = None \<rparr>"

text \<open>
  What \<^verbatim>\<open>fetch\<close> resolves to. \<open>json\<close> is the outcome of \<^verbatim>\<open>response.json()\<close>: the
  parsed body, or \<open>None\<close> when the body is not JSON and the promise rejects.
  \<^verbatim>\<open>response.ok\<close> is, by the Fetch standard, the status being in 200..299.
\<close>

record 'n response =
  status :: nat
  statusText :: string
  json :: "'n jsval option"

definition ok :: "'n response \<Rightarrow> bool" where
  "ok r = (200 \<le> status r \<and> status r \<le> 299)"

text \<open>
  The remote side: given the calls made so far and a call, an error (\<^verbatim>\<open>fetch\<close> rejects)
  or a response. A method runs on a \<open>world\<close>: the instance it is called on and the
  trace of \<^verbatim>\<open>fetch\<close> calls.
\<close>

type_synonym 'n network = "fetch_call list \<Rightarrow> fetch_call \<Rightarrow> error + 'n response"

record world =
  this :: RankVectorsSDK
  sent :: "fetch_call list"

definition fetch :: "'n network \<Rightarrow> fetch_call \<Rightarrow> world \<Rightarrow> (error + 'n response) \<times> world" where
  "fetch net call w = (net (sent w) call, w\<lparr> sent := sent w @ [call] \<rparr>)"

text \<open>The remote side that answers every call with the same response.\<close>

definition always :: "'n response \<Rightarrow> 'n network" where
  "always r calls call = Inr r"

fun join :: "string \<Rightarrow> string list \<Rightarrow> string" where
  "join sep [] = []"
| "join sep [x] = x"
| "join sep (x # y # ys) = x @ sep @ join sep (y # ys)"

fun sequence :: "(error + 'a) list \<Rightarrow> error + 'a list" where
  "sequence [] = Inr []"
| "sequence (Inl e # rs) = Inl e"
| "sequence (Inr x # rs) = (case sequence rs of Inl e \<Rightarrow> Inl e | Inr xs \<Rightarrow> Inr (x # xs))"

text \<open>
  \<^verbatim>\<open>String(v)\<close>, as \<^verbatim>\<open>new Error(v)\<close> converts its argument. An array is the join of its
  elements by a comma, null and undefined elements giving the empty string. A parsed
  object is \<^verbatim>\<open>[object Object]\<close>, unless it has an own property \<^verbatim>\<open>toString\<close>: that is
  not callable, \<^verbatim>\<open>valueOf\<close> returns no primitive, and the conversion throws a TypeError.
\<close>

fun js_toString :: "('n, 'd) runtime \<Rightarrow> 'n jsval \<Rightarrow> error + string" where
  "js_toString rt JUndefined = Inr ''undefined''"
| "js_toString rt JNull = Inr ''null''"
| "js_toString rt (JBool b) = Inr (if b then ''true'' else ''false'')"
| "js_toString rt (JNum n) = Inr (num_toString rt n)"
| "js_toString rt (JStr s) = Inr s"
| "js_toString rt (JArr xs) =
     (case sequence (map (\<lambda>x. case x of JUndefined \<Rightarrow> Inr [] | JNull \<Rightarrow> Inr []
                                   | _ \<Rightarrow> js_toString rt x) xs) of
        Inl e \<Rightarrow> Inl e
      | Inr ss \<Rightarrow> Inr (join '','' ss))"
| "js_toString rt (JObj kvs) =
     (if ''toString'' \<in> fst ` set kvs then Inl TypeError else Inr ''[object Object]'')"

text \<open>
  \<^verbatim>\<open>request(endpoint, options)\<close>. The init object is \<^verbatim>\<open>options\<close> with its headers
  replaced by the two default headers overlaid with \<^verbatim>\<open>options.headers\<close>: in the object
  literal the spread comes last, so a caller's entry wins over a default of the same name.
\<close>

definition request_url :: "RankVectorsSDK \<Rightarrow> string \<Rightarrow> string" where
  "request_url c endpoint = baseUrl c @ endpoint"

definition request_headers :: "RankVectorsSDK \<Rightarrow> request_init \<Rightarrow> (string \<rightharpoonup> string)" where
  "request_headers c options =
     [''Authorization'' \<mapsto> ''Bearer '' @ apiKey c, ''Content-Type'' \<mapsto> ''application/json'']
       ++ (case ri_headers options of None \<Rightarrow> Map.empty | Some h \<Rightarrow> h)"

definition request_call :: "RankVectorsSDK \<Rightarrow> string \<Rightarrow> request_init \<Rightarrow> fetch_call" where
  "request_call c endpoint options =
     \<lparr> url = request_url c endpoint,
       http_method = ri_method options,
       body = ri_body options,
       headers = request_headers c options \<rparr>"

definition failure_message :: "'n response \<Rightarrow> string" where
  "failure_message r = ''API request failed: '' @ decimal (status r) @ '' '' @ statusText r"

definition request ::
  "('n, 'd) runtime \<Rightarrow> 'n network \<Rightarrow> string \<Rightarrow> request_init \<Rightarrow> world
     \<Rightarrow> (error + 'n jsval) \<times> world"
where
  "request rt net endpoint options w =
     (let (r, w') = fetch net (request_call (this w) endpoint options) w
      in case r of
           Inl e \<Rightarrow> (Inl e, w')
         | Inr resp \<Rightarrow>
             if \<not> ok resp then
               (let errorData = (case json resp of None \<Rightarrow> JObj [] | Some j \<Rightarrow> j)
                in case get_prop errorData ''error'' of
                     Inl e \<Rightarrow> (Inl e, w')
                   | Inr err \<Rightarrow>
                       if truthy rt err then
                         (case js_toString rt err of
                            Inl e \<Rightarrow> (Inl e, w')
                          | Inr m \<Rightarrow> (Inl (RequestFailed m), w'))
                       else (Inl (RequestFailed (failure_message resp)), w'))
             else
               (case json resp of
                  None \<Rightarrow> (Inl SyntaxError, w')
                | Some j \<Rightarrow> (Inr j, w')))"

subsection \<open>Query strings and JSON text\<close>

text \<open>
  A \<^verbatim>\<open>URLSearchParams\<close> object is its list of name-value pairs; \<^verbatim>\<open>append\<close> adds a pair
  at the end. \<^verbatim>\<open>toString\<close> is the application/x-www-form-urlencoded serializer of the
  URL standard: every byte other than an ASCII letter, a digit and \<^verbatim>\<open>* - . _\<close> is
  percent-encoded with upper-case hexadecimal digits, except the space, which becomes a plus
  sign; the pairs are \<^verbatim>\<open>name=value\<close>, joined by an ampersand.
\<close>

definition hex_digit :: "string \<Rightarrow> nat \<Rightarrow> char" where
  "hex_digit digits n = digits ! (n mod 16)"

definition urlencoded_byte :: "char \<Rightarrow> string" where
  "urlencoded_byte c =
     (if c \<in> set ''ABCDEFGHIJKLMNOPQRSTUVWXYZabcdefghijklmnopqrstuvwxyz0123456789*-._'' then [c]
      else if c = CHR '' '' then ''+''
      else [CHR ''%'', hex_digit ''0123456789ABCDEF'' (of_char c div 16),
            hex_digit ''0123456789ABCDEF'' (of_char c)])"

definition urlencoded :: "string \<Rightarrow> string" where
  "urlencoded s = concat (map urlencoded_byte s)"

definition URLSearchParams_toString :: "(string \<times> string) list \<Rightarrow> string" where
  "URLSearchParams_toString params =
     join ''&'' (map (\<lambda>(k, v). urlencoded k @ ''='' @ urlencoded v) params)"

text \<open>
  \<^verbatim>\<open>JSON.stringify\<close> on plain data. A string is quoted with the escapes of the standard;
  an undefined property of an object is left out, an undefined element of an array is
  \<^verbatim>\<open>null\<close>, and so is a number that is not finite; undefined itself has no text.
\<close>

definition dquote :: char where
  "dquote = CHR 0x22"

definition backslash :: char where
  "backslash = CHR 0x5C"

definition JSON_escape :: "char \<Rightarrow> string" where
  "JSON_escape c =
     (if c = dquote then [backslash, dquote]
      else if c = backslash then [backslash, backslash]
      else if c = CHR 0x08 then [backslash, CHR ''b'']
      else if c = CHR 0x09 then [backslash, CHR ''t'']
      else if c = CHR 0x0A then [backslash, CHR ''n'']
      else if c = CHR 0x0C then [backslash, CHR ''f'']
      else if c = CHR 0x0D then [backslash, CHR ''r'']
      else if (of_char c :: nat) < 32 then
        [backslash, CHR ''u'', CHR ''0'', CHR ''0'',
         hex_digit ''0123456789abcdef'' (of_char c div 16),
         hex_digit ''0123456789abcdef'' (of_char c)]
      else [c])"

definition JSON_quote :: "string \<Rightarrow> string" where
  "JSON_quote s = [dquote] @ concat (map JSON_escape s) @ [dquote]"

fun JSON_stringify :: "('n, 'd) runtime \<Rightarrow> 'n jsval \<Rightarrow> string option" where
  "JSON_stringify rt JUndefined = None"
| "JSON_stringify rt JNull = Some ''null''"
| "JSON_stringify rt (JBool b) = Some (if b then ''true'' else ''false'')"
| "JSON_stringify rt (JNum n) = Some (if num_finite rt n then num_toString rt n else ''null'')"
| "JSON_stringify rt (JStr s) = Some (JSON_quote s)"
| "JSON_stringify rt (JArr xs) =
     Some (''['' @ join '','' (map (\<lambda>x. case JSON_stringify rt x of None \<Rightarrow> ''null'' | Some t \<Rightarrow> t) xs)
           @ '']'')"
| "JSON_stringify rt (JObj kvs) =
     Some (''{'' @ join '','' (concat (map (\<lambda>(k, v). case JSON_stringify rt v of
                                                      None \<Rightarrow> []
                                                    | Some t \<Rightarrow> [JSON_quote k @ '':'' @ t]) kvs))
           @ ''}'')"

text \<open>
  The object spread \<^verbatim>\<open>{...target, ...source}\<close> on property lists: a property of the source
  replaces the one of the same name where it stands, a new one goes to the end. (The
  objects the SDK spreads have no array-index keys, which JavaScript would enumerate first.)
\<close>

definition spread :: "(string \<times> 'v) list \<Rightarrow> (string \<times> 'v) list \<Rightarrow> (string \<times> 'v) list" where
  "spread target source = fold (\<lambda>(k, v) acc. AList.update k v acc) source target"

definition opt_str :: "string option \<Rightarrow> 'n jsval" where
  "opt_str s = (case s of None \<Rightarrow> JUndefined | Some t \<Rightarrow> JStr t)"

subsection \<open>Suggestions\<close>

text \<open>
  The optional \<^verbatim>\<open>filters\<close> argument of \<^verbatim>\<open>getSuggestions\<close>. \<^verbatim>\<open>filters?.status\<close> is
  \<open>Option.bind filters sf_status\<close>; the guard \<^verbatim>\<open>if (filters?.status)\<close> tests that value
  for truth, so an empty string and the numbers 0 and NaN are treated like an absent field.
\<close>

record 'n suggestion_filters =
  sf_status :: "string option"
  sf_limit :: "'n option"
  sf_offset :: "'n option"

definition str_param :: "string \<Rightarrow> string option \<Rightarrow> (string \<times> string) list" where
  "str_param name v = (case v of Some s \<Rightarrow> if s \<noteq> [] then [(name, s)] else [] | None \<Rightarrow> [])"

definition num_param :: "('n, 'd) runtime \<Rightarrow> string \<Rightarrow> 'n option \<Rightarrow> (string \<times> string) list" where
  "num_param rt name v =
     (case v of Some n \<Rightarrow> if num_truthy rt n then [(name, num_toString rt n)] else [] | None \<Rightarrow> [])"

definition getSuggestions_params ::
  "('n, 'd) runtime \<Rightarrow> 'n suggestion_filters option \<Rightarrow> (string \<times> string) list"
where
  "getSuggestions_params rt filters =
     (let params = [];
          params = params @ str_param ''status'' (Option.bind filters sf_status);
          params = params @ num_param rt ''limit'' (Option.bind filters sf_limit);
          params = params @ num_param rt ''offset'' (Option.bind filters sf_offset)
      in params)"

definition with_query :: "string \<Rightarrow> string \<Rightarrow> string" where
  "with_query path query = path @ (if query \<noteq> [] then ''?'' @ query else [])"

definition getSuggestions_endpoint ::
  "('n, 'd) runtime \<Rightarrow> string \<Rightarrow> 'n suggestion_filters option \<Rightarrow> string"
where
  "getSuggestions_endpoint rt projectId filters =
     with_query (''/api/projects/'' @ projectId @ ''/suggestions'')
       (URLSearchParams_toString (getSuggestions_params rt filters))"

text \<open>\<^verbatim>\<open>(await this.request(endpoint, options)).field\<close>, the shape of most methods.\<close>

definition request_field ::
  "('n, 'd) runtime \<Rightarrow> 'n network \<Rightarrow> string \<Rightarrow> request_init \<Rightarrow> string \<Rightarrow> world
     \<Rightarrow> (error + 'n jsval) \<times> world"
where
  "request_field rt net endpoint options field w =
     (let (r, w') = request rt net endpoint options w
      in case r of Inl e \<Rightarrow> (Inl e, w') | Inr response \<Rightarrow> (get_prop response field, w'))"

definition getSuggestions ::
  "('n, 'd) runtime \<Rightarrow> 'n network \<Rightarrow> string \<Rightarrow> 'n suggestion_filters option \<Rightarrow> world
     \<Rightarrow> (error + 'n jsval) \<times> world"
where
  "getSuggestions rt net projectId filters w =
     request_field rt net (getSuggestions_endpoint rt projectId filters) no_options
       ''suggestions'' w"

definition approveSuggestion ::
  "('n, 'd) runtime \<Rightarrow> 'n network \<Rightarrow> string \<Rightarrow> world \<Rightarrow> (error + 'n jsval) \<times> world"
where
  "approveSuggestion rt net suggestionId w =
     (let (r, w') =
            request rt net (''/api/projects/suggestions/'' @ suggestionId)
              \<lparr> ri_method = Some ''PATCH'',
                ri_body = JSON_stringify rt (JObj [(''status'', JStr ''approved'')]),
                ri_headers = None \<rparr> w
      in case r of Inl e \<Rightarrow> (Inl e, w') | Inr response \<Rightarrow> (Inr JUndefined, w'))"

definition rejectSuggestion ::
  "('n, 'd) runtime \<Rightarrow> 'n network \<Rightarrow> string \<Rightarrow> world \<Rightarrow> (error + 'n jsval) \<times> world"
where
  "rejectSuggestion rt net suggestionId w =
     (let (r, w') =
            request rt net (''/api/projects/suggestions/'' @ suggestionId)
              \<lparr> ri_method = Some ''PATCH'',
                ri_body = JSON_stringify rt (JObj [(''status'', JStr ''rejected'')]),
                ri_headers = None \<rparr> w
      in case r of Inl e \<Rightarrow> (Inl e, w') | Inr response \<Rightarrow> (Inr JUndefined, w'))"

subsection \<open>Implementations\<close>

text \<open>
  \<^verbatim>\<open>implementLinks\<close> takes its \<^verbatim>\<open>options\<close> as the property list of the caller's object
  and spreads it after \<^verbatim>\<open>suggestionIds\<close>; \<^verbatim>\<open>rollbackImplementation\<close> takes \<^verbatim>\<open>credentials\<close>
  as any plain value.
\<close>

definition post :: "('n, 'd) runtime \<Rightarrow> 'n jsval \<Rightarrow> request_init" where
  "post rt payload =
     \<lparr> ri_method = Some ''POST'', ri_body = JSON_stringify rt payload, ri_headers = None \<rparr>"

definition implementLinks ::
  "('n, 'd) runtime \<Rightarrow> 'n network \<Rightarrow> string \<Rightarrow> string list \<Rightarrow> (string \<times> 'n jsval) list \<Rightarrow> world
     \<Rightarrow> (error + 'n jsval) \<times> world"
where
  "implementLinks rt net projectId suggestionIds options w =
     request rt net (''/api/projects/'' @ projectId @ ''/implementations'')
       (post rt (JObj (spread [(''suggestionIds'', JArr (map JStr suggestionIds))] options))) w"

definition getImplementation ::
  "('n, 'd) runtime \<Rightarrow> 'n network \<Rightarrow> string \<Rightarrow> string \<Rightarrow> world \<Rightarrow> (error + 'n jsval) \<times> world"
where
  "getImplementation rt net projectId implementationId w =
     request_field rt net
       (''/api/projects/'' @ projectId @ ''/implementations/'' @ implementationId) no_options
       ''implementation'' w"

record 'n implementation_filters =
  if_status :: "string option"
  if_platform :: "string option"
  if_limit :: "'n option"
  if_offset :: "'n option"

definition getImplementations_params ::
  "('n, 'd) runtime \<Rightarrow> 'n implementation_filters option \<Rightarrow> (string \<times> string) list"
where
  "getImplementations_params rt filters =
     (let params = [];
          params = params @ str_param ''status'' (Option.bind filters if_status);
          params = params @ str_param ''platform'' (Option.bind filters if_platform);
          params = params @ num_param rt ''limit'' (Option.bind filters if_limit);
          params = params @ num_param rt ''offset'' (Option.bind filters if_offset)
      in params)"

definition getImplementations_endpoint ::
  "('n, 'd) runtime \<Rightarrow> string \<Rightarrow> 'n implementation_filters option \<Rightarrow> string"
where
  "getImplementations_endpoint rt projectId filters =
     with_query (''/api/projects/'' @ projectId @ ''/implementations'')
       (URLSearchParams_toString (getImplementations_params rt filters))"

definition getImplementations ::
  "('n, 'd) runtime \<Rightarrow> 'n network \<Rightarrow> string \<Rightarrow> 'n implementation_filters option \<Rightarrow> world
     \<Rightarrow> (error + 'n jsval) \<times> world"
where
  "getImplementations rt net projectId filters w =
     request_field rt net (getImplementations_endpoint rt projectId filters) no_options
       ''implementations'' w"

definition rollbackImplementation ::
  "('n, 'd) runtime \<Rightarrow> 'n network \<Rightarrow> string \<Rightarrow> string \<Rightarrow> string option \<Rightarrow> 'n jsval \<Rightarrow> world
     \<Rightarrow> (error + 'n jsval) \<times> world"
where
  "rollbackImplementation rt net projectId implementationId reason credentials w =
     request rt net
       (''/api/projects/'' @ projectId @ ''/implementations/'' @ implementationId @ ''/rollback'')
       (post rt (JObj [(''reason'', opt_str reason), (''credentials'', credentials)])) w"

subsection \<open>Credits and content verification\<close>

record 'd DateRange =
  startDate :: "'d option"
  endDate :: "'d option"

text \<open>
  A \<^verbatim>\<open>Date\<close> object is always truthy, so a present date is always rendered;
  \<^verbatim>\<open>toISOString\<close> throws on an invalid one, before any request is made.
\<close>

definition date_param ::
  "('n, 'd) runtime \<Rightarrow> string \<Rightarrow> 'd option \<Rightarrow> error + (string \<times> string) list"
where
  "date_param rt name v =
     (case v of
        None \<Rightarrow> Inr []
      | Some d \<Rightarrow> (case date_toISOString rt d of None \<Rightarrow> Inl RangeError | Some t \<Rightarrow> Inr [(name, t)]))"

definition getCredits_params ::
  "('n, 'd) runtime \<Rightarrow> bool \<Rightarrow> 'd DateRange option \<Rightarrow> error + (string \<times> string) list"
where
  "getCredits_params rt includeHistory dateRange =
     (let params = [];
          params = params @ (if includeHistory then [(''includeHistory'', ''true'')] else [])
      in case date_param rt ''startDate'' (Option.bind dateRange startDate) of
           Inl e \<Rightarrow> Inl e
         | Inr ps \<Rightarrow>
             (let params = params @ ps
              in case date_param rt ''endDate'' (Option.bind dateRange endDate) of
                   Inl e \<Rightarrow> Inl e
                 | Inr qs \<Rightarrow> Inr (params @ qs)))"

text \<open>The parameter \<^verbatim>\<open>includeHistory\<close> defaults to false when the argument is absent.\<close>

definition getCredits ::
  "('n, 'd) runtime \<Rightarrow> 'n network \<Rightarrow> string \<Rightarrow> bool option \<Rightarrow> 'd DateRange option \<Rightarrow> world
     \<Rightarrow> (error + 'n jsval) \<times> world"
where
  "getCredits rt net projectId includeHistory_arg dateRange w =
     (let includeHistory = (case includeHistory_arg of None \<Rightarrow> False | Some b \<Rightarrow> b)
      in case getCredits_params rt includeHistory dateRange of
           Inl e \<Rightarrow> (Inl e, w)
         | Inr params \<Rightarrow>
             request rt net
               (with_query (''/api/projects/'' @ projectId @ ''/credits'')
                  (URLSearchParams_toString params))
               no_options w)"

text \<open>\<^verbatim>\<open>return result.usageHistory || []\<close>\<close>

definition getCreditUsage ::
  "('n, 'd) runtime \<Rightarrow> 'n network \<Rightarrow> string \<Rightarrow> 'd DateRange option \<Rightarrow> world
     \<Rightarrow> (error + 'n jsval) \<times> world"
where
  "getCreditUsage rt net projectId dateRange w =
     (let (r, w') = getCredits rt net projectId (Some True) dateRange w
      in case r of
           Inl e \<Rightarrow> (Inl e, w')
         | Inr result \<Rightarrow>
             (case get_prop result ''usageHistory'' of
                Inl e \<Rightarrow> (Inl e, w')
              | Inr usageHistory \<Rightarrow>
                  (Inr (if truthy rt usageHistory then usageHistory else JArr []), w')))"

definition addCredits ::
  "('n, 'd) runtime \<Rightarrow> 'n network \<Rightarrow> string \<Rightarrow> 'n \<Rightarrow> string option \<Rightarrow> world
     \<Rightarrow> (error + 'n jsval) \<times> world"
where
  "addCredits rt net projectId amount source w =
     request_field rt net (''/api/projects/'' @ projectId @ ''/credits'')
       (post rt (JObj [(''amount'', JNum amount), (''source'', opt_str source)]))
       ''balance'' w"

definition verifyContent ::
  "('n, 'd) runtime \<Rightarrow> 'n network \<Rightarrow> string \<Rightarrow> string \<Rightarrow> string option \<Rightarrow> world
     \<Rightarrow> (error + 'n jsval) \<times> world"
where
  "verifyContent rt net projectId pageUrl suggestionId w =
     request_field rt net (''/api/projects/'' @ projectId @ ''/verify-content'')
       (post rt (JObj [(''pageUrl'', JStr pageUrl), (''suggestionId'', opt_str suggestionId)]))
       ''verification'' w"

subsection \<open>Sequences of calls on one instance\<close>

text \<open>A call of a public method with its arguments, and a run of calls one after the other.\<close>

datatype ('n, 'd) call =
    GetSuggestions string "'n suggestion_filters option"
  | ApproveSuggestion string
  | RejectSuggestion string
  | ImplementLinks string "string list" "(string \<times> 'n jsval) list"
  | GetImplementation string string
  | GetImplementations string "'n implementation_filters option"
  | RollbackImplementation string string "string option" "'n jsval"
  | GetCredits string "bool option" "'d DateRange option"
  | GetCreditUsage string "'d DateRange option"
  | AddCredits string 'n "string option"
  | VerifyContent string string "string option"

fun invoke ::
  "('n, 'd) runtime \<Rightarrow> 'n network \<Rightarrow> ('n, 'd) call \<Rightarrow> world \<Rightarrow> (error + 'n jsval) \<times> world"
where
  "invoke rt net (GetSuggestions p f) = getSuggestions rt net p f"
| "invoke rt net (ApproveSuggestion i) = approveSuggestion rt net i"
| "invoke rt net (RejectSuggestion i) = rejectSuggestion rt net i"
| "invoke rt net (ImplementLinks p ids opts) = implementLinks rt net p ids opts"
| "invoke rt net (GetImplementation p i) = getImplementation rt net p i"
| "invoke rt net (GetImplementations p f) = getImplementations rt net p f"
| "invoke rt net (RollbackImplementation p i reason cred) = rollbackImplementation rt net p i reason cred"
| "invoke rt net (GetCredits p h d) = getCredits rt net p h d"
| "invoke rt net (GetCreditUsage p d) = getCreditUsage rt net p d"
| "invoke rt net (AddCredits p a src) = addCredits rt net p a src"
| "invoke rt net (VerifyContent p u i) = verifyContent rt net p u i"

fun run :: "('n, 'd) runtime \<Rightarrow> 'n network \<Rightarrow> ('n, 'd) call list \<Rightarrow> world \<Rightarrow> world" where
  "run rt net [] w = w"
| "run rt net (c # cs) w = run rt net cs (snd (invoke rt net c w))"

section \<open>Properties\<close>

subsection \<open>Construction\<close>

lemma strip_trailing_slash_snoc: "strip_trailing_slash (b @ ''/'') = b"
  by (simp add: strip_trailing_slash_def)

lemma strip_trailing_slash_id: "b = [] \<or> last b \<noteq> CHR ''/'' \<Longrightarrow> strip_trailing_slash b = b"
  by (auto simp add: strip_trailing_slash_def)

text \<open>
  C2. Constructing the client with an absent or an empty API key fails with
  \<open>InvalidConfiguration\<close>, and the trace of \<^verbatim>\<open>fetch\<close> calls is what it was: no network
  call is attempted. With any non-empty key the construction succeeds and stores the key.
\<close>

theorem constructor_requires_apiKey:
  "constructor None b tr = (Inl (InvalidConfiguration ''API key is required''), tr)
   \<and> constructor (Some []) b tr = (Inl (InvalidConfiguration ''API key is required''), tr)
   \<and> (k \<noteq> [] \<longrightarrow> (\<exists>c. constructor (Some k) b tr = (Inr c, tr) \<and> apiKey c = k))"
  by (simp add: constructor_def Let_def)

theorem constructor_requires_apiKey_witness:
  "constructor None (Some ''https://host'') [] = (Inl (InvalidConfiguration ''API key is required''), [])
   \<and> constructor (Some []) (Some ''https://host'') [] = (Inl (InvalidConfiguration ''API key is required''), [])
   \<and> ''key'' \<noteq> []
   \<and> (\<exists>c. constructor (Some ''key'') (Some ''https://host'') [] = (Inr c, []) \<and> apiKey c = ''key'')"
  using constructor_requires_apiKey [of "Some ''https://host''" "[]" "''key''"] by simp

text \<open>
  C6. The constructor removes exactly one trailing slash from the base URL: a base URL
  \<open>b\<close> followed by a slash is stored as \<open>b\<close> (so one that ends in two slashes keeps one),
  one without a trailing slash is stored as it is, \<^verbatim>\<open>https://host/\<close> and \<^verbatim>\<open>https://host\<close>
  give the same client, and the URL of a request is the stored base URL followed by the path.
\<close>

theorem baseUrl_one_trailing_slash_removed:
  assumes "k \<noteq> []"
  shows "constructor (Some k) (Some (b @ ''/'')) tr = (Inr \<lparr> apiKey = k, baseUrl = b \<rparr>, tr)
    \<and> (b = [] \<or> last b \<noteq> CHR ''/'' \<longrightarrow>
         constructor (Some k) (Some b) tr = (Inr \<lparr> apiKey = k, baseUrl = b \<rparr>, tr))
    \<and> constructor (Some k) (Some ''https://host/'') tr = constructor (Some k) (Some ''https://host'') tr
    \<and> request_url \<lparr> apiKey = k, baseUrl = b \<rparr> path = b @ path"
proof -
  have host: "strip_trailing_slash ''https://host/'' = strip_trailing_slash ''https://host''"
    by (simp add: strip_trailing_slash_def)
  show ?thesis
    using assms strip_trailing_slash_snoc [of b] strip_trailing_slash_id [of b] host
    by (simp add: constructor_def Let_def request_url_def)
qed

theorem baseUrl_one_trailing_slash_removed_witness:
  "constructor (Some ''key'') (Some ''https://host/'') [] =
     (Inr \<lparr> apiKey = ''key'', baseUrl = ''https://host'' \<rparr>, [])
   \<and> constructor (Some ''key'') (Some ''https://host'') [] =
     (Inr \<lparr> apiKey = ''key'', baseUrl = ''https://host'' \<rparr>, [])
   \<and> constructor (Some ''key'') (Some ''https://host//'') [] =
     (Inr \<lparr> apiKey = ''key'', baseUrl = ''https://host/'' \<rparr>, [])
   \<and> request_url \<lparr> apiKey = ''key'', baseUrl = ''https://host'' \<rparr> ''/api/projects/p/credits''
     = ''https://host/api/projects/p/credits''"
  using baseUrl_one_trailing_slash_removed [of "''key''" "''https://host''" "[]" "''/api/projects/p/credits''"]
    baseUrl_one_trailing_slash_removed [of "''key''" "''https://host/''" "[]" "[]"]
  by simp

subsection \<open>The generic request\<close>

lemma request_world:
  "snd (request rt net endpoint options w)
     = w\<lparr> sent := sent w @ [request_call (this w) endpoint options] \<rparr>"
  by (simp add: request_def fetch_def Let_def split: sum.splits option.splits)

lemma request_rejected:
  "net (sent w) (request_call (this w) endpoint options) = Inl e
   \<Longrightarrow> fst (request rt net endpoint options w) = Inl e"
  by (simp add: request_def fetch_def)

lemma request_ok:
  "net (sent w) (request_call (this w) endpoint options) = Inr resp \<Longrightarrow> ok resp
   \<Longrightarrow> fst (request rt net endpoint options w)
       = (case json resp of None \<Rightarrow> Inl SyntaxError | Some j \<Rightarrow> Inr j)"
  by (simp add: request_def fetch_def split: option.splits)

lemma request_not_ok:
  "net (sent w) (request_call (this w) endpoint options) = Inr resp \<Longrightarrow> \<not> ok resp
   \<Longrightarrow> fst (request rt net endpoint options w)
       = (case get_prop (case json resp of None \<Rightarrow> JObj [] | Some j \<Rightarrow> j) ''error'' of
            Inl e \<Rightarrow> Inl e
          | Inr err \<Rightarrow>
              if truthy rt err then
                (case js_toString rt err of Inl e \<Rightarrow> Inl e | Inr m \<Rightarrow> Inl (RequestFailed m))
              else Inl (RequestFailed (failure_message resp)))"
  by (simp add: request_def fetch_def Let_def split: option.splits sum.splits)

lemma request_not_ok_fails:
  "net (sent w) (request_call (this w) endpoint options) = Inr resp \<Longrightarrow> \<not> ok resp
   \<Longrightarrow> \<exists>e. fst (request rt net endpoint options w) = Inl e"
  by (simp add: request_not_ok split: sum.splits)

lemma not_ok_iff: "\<not> ok resp \<longleftrightarrow> status resp < 200 \<or> 299 < status resp"
  by (auto simp add: ok_def)

text \<open>
  A 404 response whose body is the JSON object with the field \<^verbatim>\<open>error\<close> set to the empty
  string: the field is present, and the message is the synthesized one, not the field.
\<close>

theorem request_empty_error_field_counterexample:
  "fst (request int_runtime
         (always \<lparr> status = 404, statusText = ''Not Found'',
                   json = Some (JObj [(''error'', JStr [])]) \<rparr>)
         ''/api/projects/p/credits'' no_options
         \<lparr> this = \<lparr> apiKey = ''key'', baseUrl = ''https://host'' \<rparr>, sent = [] \<rparr>)
     = Inl (RequestFailed ''API request failed: 404 Not Found'')"
  by code_simp

text \<open>
  C1 (as amended). When \<^verbatim>\<open>fetch\<close> resolves to a response whose status is outside 200..299,
  \<^verbatim>\<open>request\<close> fails: it returns no result. When the parsed body is an object whose
  \<^verbatim>\<open>error\<close> field is a non-empty string, the failure is \<open>RequestFailed\<close> with exactly
  that string as its message. When the field is present but falsy (an empty string, 0,
  false, null), the message is the synthesized one of status code and status text. When
  the field is another truthy value and its conversion to a string succeeds, the message
  is that string.
\<close>

theorem request_failure_error_field:
  assumes "net (sent w) (request_call (this w) endpoint options) = Inr resp"
    and "status resp < 200 \<or> 299 < status resp"
  shows "(\<exists>e. fst (request rt net endpoint options w) = Inl e)
    \<and> (\<forall>kvs s. json resp = Some (JObj kvs) \<and> map_of kvs ''error'' = Some (JStr s) \<and> s \<noteq> []
          \<longrightarrow> fst (request rt net endpoint options w) = Inl (RequestFailed s))
    \<and> (\<forall>kvs v. json resp = Some (JObj kvs) \<and> map_of kvs ''error'' = Some v \<and> \<not> truthy rt v
          \<longrightarrow> fst (request rt net endpoint options w) = Inl (RequestFailed (failure_message resp)))
    \<and> (\<forall>kvs v m. json resp = Some (JObj kvs) \<and> map_of kvs ''error'' = Some v \<and> truthy rt v
            \<and> js_toString rt v = Inr m
          \<longrightarrow> fst (request rt net endpoint options w) = Inl (RequestFailed m))"
proof -
  from assms(2) have bad: "\<not> ok resp" by (simp add: not_ok_iff)
  have fails: "\<exists>e. fst (request rt net endpoint options w) = Inl e"
    using assms(1) bad by (rule request_not_ok_fails)
  note unfolded = request_not_ok [of net w endpoint options resp rt, OF assms(1) bad]
  have nonempty: "fst (request rt net endpoint options w) = Inl (RequestFailed s)"
    if "json resp = Some (JObj kvs)" "map_of kvs ''error'' = Some (JStr s)" "s \<noteq> []" for kvs s
    using that by (simp add: unfolded)
  have falsy: "fst (request rt net endpoint options w) = Inl (RequestFailed (failure_message resp))"
    if "json resp = Some (JObj kvs)" "map_of kvs ''error'' = Some v" "\<not> truthy rt v" for kvs v
    using that by (simp add: unfolded)
  have converted: "fst (request rt net endpoint options w) = Inl (RequestFailed m)"
    if "json resp = Some (JObj kvs)" "map_of kvs ''error'' = Some v" "truthy rt v"
      "js_toString rt v = Inr m" for kvs v m
    using that by (simp add: unfolded)
  from fails nonempty falsy converted show ?thesis by blast
qed

theorem request_failure_error_field_witness:
  "fst (request int_runtime
         (always \<lparr> status = 404, statusText = ''Not Found'',
                   json = Some (JObj [(''error'', JStr ''not found'')]) \<rparr>)
         ''/api/projects/p/credits'' no_options
         \<lparr> this = \<lparr> apiKey = ''key'', baseUrl = ''https://host'' \<rparr>, sent = [] \<rparr>)
     = Inl (RequestFailed ''not found'')"
  using request_failure_error_field
    [of "always \<lparr> status = 404, statusText = ''Not Found'',
                   json = Some (JObj [(''error'', JStr ''not found'')]) \<rparr>"
        "\<lparr> this = \<lparr> apiKey = ''key'', baseUrl = ''https://host'' \<rparr>, sent = [] \<rparr>"
        "''/api/projects/p/credits''" no_options
        "\<lparr> status = 404, statusText = ''Not Found'',
                   json = Some (JObj [(''error'', JStr ''not found'')]) \<rparr>" int_runtime]
  by (simp add: always_def)

text \<open>
  The synthesized message: the body is not JSON, or it is a value other than null with
  no \<^verbatim>\<open>error\<close> property.
\<close>

lemma request_failure_synthesized_message:
  assumes "net (sent w) (request_call (this w) endpoint options) = Inr resp"
    and "status resp < 200 \<or> 299 < status resp"
    and "json resp = None \<or> (\<exists>j. json resp = Some j \<and> get_prop j ''error'' = Inr JUndefined)"
  shows "fst (request rt net endpoint options w)
     = Inl (RequestFailed (''API request failed: '' @ decimal (status resp) @ '' '' @ statusText resp))"
proof -
  from assms(2) have bad: "\<not> ok resp" by (simp add: not_ok_iff)
  from assms(3) show ?thesis
    by (auto simp add: request_not_ok [of net w endpoint options resp rt, OF assms(1) bad]
        failure_message_def)
qed

text \<open>
  C4. A response with a status outside 200..299 whose body has no \<^verbatim>\<open>error\<close> field is to
  fail with the message made of the status code and the status text. At the status 500
  with the body \<^verbatim>\<open>null\<close> the source fails differently: \<^verbatim>\<open>response.json()\<close> resolves to
  null, so the \<^verbatim>\<open>catch\<close> that substitutes an empty object does not run, and reading
  \<^verbatim>\<open>errorData.error\<close> throws a TypeError; no message with the status is produced.
\<close>

theorem request_null_body_TypeError:
  "fst (request int_runtime
         (always \<lparr> status = 500, statusText = ''Internal Server Error'', json = Some JNull \<rparr>)
         ''/api/projects/p/credits'' no_options
         \<lparr> this = \<lparr> apiKey = ''key'', baseUrl = ''https://host'' \<rparr>, sent = [] \<rparr>)
     = Inl TypeError
   \<and> fst (request int_runtime
         (always \<lparr> status = 500, statusText = ''Internal Server Error'', json = Some JNull \<rparr>)
         ''/api/projects/p/credits'' no_options
         \<lparr> this = \<lparr> apiKey = ''key'', baseUrl = ''https://host'' \<rparr>, sent = [] \<rparr>)
     \<noteq> Inl (RequestFailed ''API request failed: 500 Internal Server Error'')"
  by code_simp

lemma request_field_ok:
  "net (sent w) (request_call (this w) endpoint options) = Inr resp \<Longrightarrow> ok resp
   \<Longrightarrow> json resp = Some j
   \<Longrightarrow> fst (request_field rt net endpoint options field w) = get_prop j field"
  using request_ok [of net w endpoint options resp rt]
  by (cases "request rt net endpoint options w") (simp add: request_field_def)

text \<open>
  C5. When \<^verbatim>\<open>fetch\<close> resolves to a response with a status in 200..299 whose body parses
  as JSON, \<^verbatim>\<open>request\<close> returns the parsed value as it is; and when the body of the
  response to the suggestions-list call is an object with a \<^verbatim>\<open>suggestions\<close> field,
  \<^verbatim>\<open>getSuggestions\<close> returns exactly the value of that field.
\<close>

theorem request_success_returns_body:
  "(net (sent w) (request_call (this w) endpoint options) = Inr resp
      \<and> 200 \<le> status resp \<and> status resp \<le> 299 \<and> json resp = Some j
     \<longrightarrow> fst (request rt net endpoint options w) = Inr j)
   \<and> (net (sent w) (request_call (this w) (getSuggestions_endpoint rt projectId filters) no_options)
        = Inr resp'
      \<and> 200 \<le> status resp' \<and> status resp' \<le> 299
      \<and> json resp' = Some (JObj kvs) \<and> map_of kvs ''suggestions'' = Some v
     \<longrightarrow> fst (getSuggestions rt net projectId filters w) = Inr v)"
proof -
  have a: "fst (request rt net endpoint options w) = Inr j"
    if "net (sent w) (request_call (this w) endpoint options) = Inr resp"
      "200 \<le> status resp" "status resp \<le> 299" "json resp = Some j"
    using request_ok [of net w endpoint options resp rt] that by (simp add: ok_def)
  have b: "fst (getSuggestions rt net projectId filters w) = Inr v"
    if "net (sent w) (request_call (this w) (getSuggestions_endpoint rt projectId filters) no_options)
          = Inr resp'"
      "200 \<le> status resp'" "status resp' \<le> 299"
      "json resp' = Some (JObj kvs)" "map_of kvs ''suggestions'' = Some v"
    using request_field_ok [of net w "getSuggestions_endpoint rt projectId filters" no_options
        resp' "JObj kvs" rt "''suggestions''"] that
    by (simp add: ok_def getSuggestions_def)
  from a b show ?thesis by blast
qed

theorem request_success_returns_body_witness:
  "fst (request int_runtime
         (always \<lparr> status = 200, statusText = ''OK'',
                   json = Some (JObj [(''suggestions'', JArr [JObj [(''id'', JStr ''s1'')]])]) \<rparr>)
         ''/api/projects/p/suggestions'' no_options
         \<lparr> this = \<lparr> apiKey = ''key'', baseUrl = ''https://host'' \<rparr>, sent = [] \<rparr>)
     = Inr (JObj [(''suggestions'', JArr [JObj [(''id'', JStr ''s1'')]])])
   \<and> fst (getSuggestions int_runtime
         (always \<lparr> status = 200, statusText = ''OK'',
                   json = Some (JObj [(''suggestions'', JArr [JObj [(''id'', JStr ''s1'')]])]) \<rparr>)
         ''p'' None
         \<lparr> this = \<lparr> apiKey = ''key'', baseUrl = ''https://host'' \<rparr>, sent = [] \<rparr>)
     = Inr (JArr [JObj [(''id'', JStr ''s1'')]])"
  using request_success_returns_body
    [of "always \<lparr> status = 200, statusText = ''OK'',
                   json = Some (JObj [(''suggestions'', JArr [JObj [(''id'', JStr ''s1'')]])]) \<rparr>"
        "\<lparr> this = \<lparr> apiKey = ''key'', baseUrl = ''https://host'' \<rparr>, sent = [] \<rparr>"
        "''/api/projects/p/suggestions''" no_options
        "\<lparr> status = 200, statusText = ''OK'',
                   json = Some (JObj [(''suggestions'', JArr [JObj [(''id'', JStr ''s1'')]])]) \<rparr>"
        "JObj [(''suggestions'', JArr [JObj [(''id'', JStr ''s1'')]])]"
        int_runtime "''p''" None
        "\<lparr> status = 200, statusText = ''OK'',
                   json = Some (JObj [(''suggestions'', JArr [JObj [(''id'', JStr ''s1'')]])]) \<rparr>"
        "[(''suggestions'', JArr [JObj [(''id'', JStr ''s1'')]])]"
        "JArr [JObj [(''id'', JStr ''s1'')]]"]
  by (simp add: always_def)

subsection \<open>What a call sends\<close>

lemma request_field_world:
  "snd (request_field rt net endpoint options field w)
     = w\<lparr> sent := sent w @ [request_call (this w) endpoint options] \<rparr>"
  using request_world [of rt net endpoint options w]
  by (cases "request rt net endpoint options w") (simp add: request_field_def split: sum.splits)

lemma approveSuggestion_world:
  "snd (approveSuggestion rt net suggestionId w)
     = w\<lparr> sent := sent w @ [request_call (this w) (''/api/projects/suggestions/'' @ suggestionId)
           \<lparr> ri_method = Some ''PATCH'',
             ri_body = JSON_stringify rt (JObj [(''status'', JStr ''approved'')]),
             ri_headers = None \<rparr>] \<rparr>"
  using request_world [of rt net "''/api/projects/suggestions/'' @ suggestionId"
      "\<lparr> ri_method = Some ''PATCH'',
         ri_body = JSON_stringify rt (JObj [(''status'', JStr ''approved'')]),
         ri_headers = None \<rparr>" w]
  by (cases "request rt net (''/api/projects/suggestions/'' @ suggestionId)
      \<lparr> ri_method = Some ''PATCH'',
         ri_body = JSON_stringify rt (JObj [(''status'', JStr ''approved'')]),
         ri_headers = None \<rparr> w")
    (simp add: approveSuggestion_def split: sum.splits)

lemma rejectSuggestion_world:
  "snd (rejectSuggestion rt net suggestionId w)
     = w\<lparr> sent := sent w @ [request_call (this w) (''/api/projects/suggestions/'' @ suggestionId)
           \<lparr> ri_method = Some ''PATCH'',
             ri_body = JSON_stringify rt (JObj [(''status'', JStr ''rejected'')]),
             ri_headers = None \<rparr>] \<rparr>"
  using request_world [of rt net "''/api/projects/suggestions/'' @ suggestionId"
      "\<lparr> ri_method = Some ''PATCH'',
         ri_body = JSON_stringify rt (JObj [(''status'', JStr ''rejected'')]),
         ri_headers = None \<rparr>" w]
  by (cases "request rt net (''/api/projects/suggestions/'' @ suggestionId)
      \<lparr> ri_method = Some ''PATCH'',
         ri_body = JSON_stringify rt (JObj [(''status'', JStr ''rejected'')]),
         ri_headers = None \<rparr> w")
    (simp add: rejectSuggestion_def split: sum.splits)

lemma status_body:
  \<open>JSON_stringify rt (JObj [(''status'', JStr ''approved'')]) = Some ''{"status":"approved"}''\<close>
  \<open>JSON_stringify rt (JObj [(''status'', JStr ''rejected'')]) = Some ''{"status":"rejected"}''\<close>
  by (simp_all add: JSON_quote_def JSON_escape_def dquote_def backslash_def)

lemma one_call_shape:
  assumes "w' = w\<lparr> sent := sent w @ [request_call (this w) endpoint options] \<rparr>"
    and "ri_headers options = None"
  shows "w' = w
   \<or> (\<exists>endpoint options. ri_headers options = None
        \<and> w' = w\<lparr> sent := sent w @ [request_call (this w) endpoint options] \<rparr>)"
  using assms by blast

lemma getCredits_world:
  "snd (getCredits rt net projectId h d w) = w
   \<or> (\<exists>endpoint options. ri_headers options = None
        \<and> snd (getCredits rt net projectId h d w)
            = w\<lparr> sent := sent w @ [request_call (this w) endpoint options] \<rparr>)"
proof (cases "getCredits_params rt (case h of None \<Rightarrow> False | Some b \<Rightarrow> b) d")
  case (Inl e)
  then show ?thesis by (simp add: getCredits_def)
next
  case (Inr params)
  then have "snd (getCredits rt net projectId h d w)
      = w\<lparr> sent := sent w @ [request_call (this w)
            (with_query (''/api/projects/'' @ projectId @ ''/credits'')
               (URLSearchParams_toString params)) no_options] \<rparr>"
    by (simp add: getCredits_def request_world)
  then show ?thesis
    by (rule one_call_shape) (simp add: no_options_def)
qed

lemma getCreditUsage_world:
  "snd (getCreditUsage rt net projectId d w) = snd (getCredits rt net projectId (Some True) d w)"
  by (cases "getCredits rt net projectId (Some True) d w")
    (simp add: getCreditUsage_def split: sum.splits)

lemma invoke_world:
  "snd (invoke rt net c w) = w
   \<or> (\<exists>endpoint options. ri_headers options = None
        \<and> snd (invoke rt net c w)
            = w\<lparr> sent := sent w @ [request_call (this w) endpoint options] \<rparr>)"
proof (cases c)
  case (GetSuggestions p f)
  show ?thesis unfolding GetSuggestions invoke.simps getSuggestions_def
    by (rule one_call_shape [OF request_field_world]) (simp add: no_options_def)
next
  case (ApproveSuggestion i)
  show ?thesis unfolding ApproveSuggestion invoke.simps
    by (rule one_call_shape [OF approveSuggestion_world]) simp
next
  case (RejectSuggestion i)
  show ?thesis unfolding RejectSuggestion invoke.simps
    by (rule one_call_shape [OF rejectSuggestion_world]) simp
next
  case (ImplementLinks p ids opts)
  show ?thesis unfolding ImplementLinks invoke.simps implementLinks_def
    by (rule one_call_shape [OF request_world]) (simp add: post_def)
next
  case (GetImplementation p i)
  show ?thesis unfolding GetImplementation invoke.simps getImplementation_def
    by (rule one_call_shape [OF request_field_world]) (simp add: no_options_def)
next
  case (GetImplementations p f)
  show ?thesis unfolding GetImplementations invoke.simps getImplementations_def
    by (rule one_call_shape [OF request_field_world]) (simp add: no_options_def)
next
  case (RollbackImplementation p i reason cred)
  show ?thesis unfolding RollbackImplementation invoke.simps rollbackImplementation_def
    by (rule one_call_shape [OF request_world]) (simp add: post_def)
next
  case (GetCredits p h d)
  show ?thesis unfolding GetCredits invoke.simps by (rule getCredits_world)
next
  case (GetCreditUsage p d)
  show ?thesis unfolding GetCreditUsage invoke.simps getCreditUsage_world
    by (rule getCredits_world)
next
  case (AddCredits p a src)
  show ?thesis unfolding AddCredits invoke.simps addCredits_def
    by (rule one_call_shape [OF request_field_world]) (simp add: post_def)
next
  case (VerifyContent p u i)
  show ?thesis unfolding VerifyContent invoke.simps verifyContent_def
    by (rule one_call_shape [OF request_field_world]) (simp add: post_def)
qed

lemma invoke_this: "this (snd (invoke rt net c w)) = this w"
  using invoke_world [of rt net c w] by auto


text \<open>
  The spread \<^verbatim>\<open>...options.headers\<close> stands after the two defaults in the object literal, so
  an entry of a plain object of headers that has the name of a default would take its
  place: the explicit override that the specification excepts. No method of the SDK passes
  headers to \<^verbatim>\<open>request\<close>, as the theorem after this lemma shows.
\<close>

lemma request_plain_object_header_same_name:
  "headers (last (sent (snd (request int_runtime
       (always \<lparr> status = 200, statusText = ''OK'', json = Some (JObj []) \<rparr>)
       ''/api/projects/p/credits''
       \<lparr> ri_method = None, ri_body = None,
         ri_headers = Some [''Authorization'' \<mapsto> ''Basic abc''] \<rparr>
       \<lparr> this = \<lparr> apiKey = ''key'', baseUrl = ''https://host'' \<rparr>, sent = [] \<rparr>))))
     ''Authorization'' = Some ''Basic abc''"
  by (simp add: request_world request_call_def request_headers_def)



lemma listing_methods_send_endpoint:
  "sent (snd (getSuggestions rt net projectId sf w))
     = sent w @ [request_call (this w) (getSuggestions_endpoint rt projectId sf) no_options]
   \<and> sent (snd (getImplementations rt net projectId imf w))
     = sent w @ [request_call (this w) (getImplementations_endpoint rt projectId imf) no_options]"
  by (simp add: getSuggestions_def getImplementations_def request_field_world)

text \<open>
  C8. \<^verbatim>\<open>approveSuggestion\<close> sends one PATCH request to the base URL followed by
  \<^verbatim>\<open>/api/projects/suggestions/{id}\<close> with the JSON body \<^verbatim>\<open>{"status":"approved"}\<close>;
  \<^verbatim>\<open>rejectSuggestion\<close> sends the same with the body \<^verbatim>\<open>{"status":"rejected"}\<close>.
\<close>

theorem approve_reject_send_PATCH:
  \<open>sent (snd (approveSuggestion rt net suggestionId w))
     = sent w @ [\<lparr> url = baseUrl (this w) @ ''/api/projects/suggestions/'' @ suggestionId,
                  http_method = Some ''PATCH'',
                  body = Some ''{"status":"approved"}'',
                  headers = [''Authorization'' \<mapsto> ''Bearer '' @ apiKey (this w),
                             ''Content-Type'' \<mapsto> ''application/json''] \<rparr>]
   \<and> sent (snd (rejectSuggestion rt net suggestionId w))
     = sent w @ [\<lparr> url = baseUrl (this w) @ ''/api/projects/suggestions/'' @ suggestionId,
                  http_method = Some ''PATCH'',
                  body = Some ''{"status":"rejected"}'',
                  headers = [''Authorization'' \<mapsto> ''Bearer '' @ apiKey (this w),
                             ''Content-Type'' \<mapsto> ''application/json''] \<rparr>]\<close>
  unfolding approveSuggestion_world rejectSuggestion_world status_body
  by (simp add: request_call_def request_url_def request_headers_def)

lemma run_this: "this (run rt net cs w) = this w"
  by (induction cs arbitrary: w) (simp_all add: invoke_this)

text \<open>
  C9. After any sequence of calls of public methods on an instance, whatever the remote
  side answers, the fields \<^verbatim>\<open>apiKey\<close> and \<^verbatim>\<open>baseUrl\<close> of the instance are what they were
  before the sequence.
\<close>

theorem configuration_unchanged:
  "apiKey (this (run rt net calls w)) = apiKey (this w)
   \<and> baseUrl (this (run rt net calls w)) = baseUrl (this w)"
  by (simp add: run_this)

subsection \<open>Credit usage\<close>

text \<open>
  An envelope whose \<^verbatim>\<open>usageHistory\<close> field is present and is \<^verbatim>\<open>false\<close>: \<^verbatim>\<open>getCredits\<close>
  returns the envelope with the field, \<^verbatim>\<open>getCreditUsage\<close> returns the empty list, not
  the field.
\<close>

theorem getCreditUsage_falsy_history_counterexample:
  "fst (getCredits int_runtime
         (always \<lparr> status = 200, statusText = ''OK'',
                   json = Some (JObj [(''balance'', JObj []), (''usageHistory'', JBool False)]) \<rparr>)
         ''p'' (Some True) None
         \<lparr> this = \<lparr> apiKey = ''key'', baseUrl = ''https://host'' \<rparr>, sent = [] \<rparr>)
     = Inr (JObj [(''balance'', JObj []), (''usageHistory'', JBool False)])
   \<and> fst (getCreditUsage int_runtime
         (always \<lparr> status = 200, statusText = ''OK'',
                   json = Some (JObj [(''balance'', JObj []), (''usageHistory'', JBool False)]) \<rparr>)
         ''p'' None
         \<lparr> this = \<lparr> apiKey = ''key'', baseUrl = ''https://host'' \<rparr>, sent = [] \<rparr>)
     = Inr (JArr [])"
  by code_simp

lemma getCreditUsage_unfold:
  "fst (getCreditUsage rt net projectId dateRange w)
     = (case fst (getCredits rt net projectId (Some True) dateRange w) of
          Inl e \<Rightarrow> Inl e
        | Inr result \<Rightarrow>
            (case get_prop result ''usageHistory'' of
               Inl e \<Rightarrow> Inl e
             | Inr v \<Rightarrow> Inr (if truthy rt v then v else JArr [])))"
  by (cases "getCredits rt net projectId (Some True) dateRange w")
    (simp add: getCreditUsage_def split: sum.splits)

lemma get_prop_absent:
  "get_prop result k = Inr v \<Longrightarrow> \<forall>kvs. result = JObj kvs \<longrightarrow> map_of kvs k = None
   \<Longrightarrow> v = JUndefined"
  by (cases result) (auto split: option.splits)

text \<open>
  C10 (as amended). Whenever \<^verbatim>\<open>getCreditUsage\<close> succeeds, \<^verbatim>\<open>getCredits\<close> with
  \<^verbatim>\<open>includeHistory\<close> true has succeeded with a result whose \<^verbatim>\<open>usageHistory\<close> can be
  read. If the result has no such field, or the field is null or another falsy value
  (false, the empty string, a number that is 0 or NaN), the operation returns the empty
  list; otherwise it returns exactly the field, and in particular every array, empty or not.
\<close>

theorem getCreditUsage_result:
  assumes "fst (getCreditUsage rt net projectId dateRange w) = Inr out"
  shows "\<exists>result v.
      fst (getCredits rt net projectId (Some True) dateRange w) = Inr result
    \<and> get_prop result ''usageHistory'' = Inr v
    \<and> ((\<forall>kvs. result = JObj kvs \<longrightarrow> map_of kvs ''usageHistory'' = None) \<longrightarrow> v = JUndefined)
    \<and> (v = JUndefined \<or> v = JNull \<or> v = JBool False \<or> v = JStr []
          \<or> (\<exists>n. v = JNum n \<and> \<not> num_truthy rt n) \<longrightarrow> out = JArr [])
    \<and> (truthy rt v \<longrightarrow> out = v)
    \<and> (\<forall>xs. v = JArr xs \<longrightarrow> out = JArr xs)"
proof -
  from assms obtain result v
    where credits: "fst (getCredits rt net projectId (Some True) dateRange w) = Inr result"
      and field: "get_prop result ''usageHistory'' = Inr v"
      and out: "out = (if truthy rt v then v else JArr [])"
    by (auto simp add: getCreditUsage_unfold split: sum.splits)
  have absent: "(\<forall>kvs. result = JObj kvs \<longrightarrow> map_of kvs ''usageHistory'' = None) \<longrightarrow> v = JUndefined"
    using get_prop_absent [OF field] by blast
  have falsy: "v = JUndefined \<or> v = JNull \<or> v = JBool False \<or> v = JStr []
      \<or> (\<exists>n. v = JNum n \<and> \<not> num_truthy rt n) \<longrightarrow> out = JArr []"
    using out by auto
  have kept: "truthy rt v \<longrightarrow> out = v"
    using out by simp
  have arrays: "\<forall>xs. v = JArr xs \<longrightarrow> out = JArr xs"
    using out by simp
  from credits field absent falsy kept arrays show ?thesis by blast
qed

theorem getCreditUsage_result_witness:
  "fst (getCreditUsage int_runtime
         (always \<lparr> status = 200, statusText = ''OK'',
                   json = Some (JObj [(''balance'', JObj []),
                                      (''usageHistory'', JArr [JObj [(''id'', JStr ''u1'')]])]) \<rparr>)
         ''p'' None
         \<lparr> this = \<lparr> apiKey = ''key'', baseUrl = ''https://host'' \<rparr>, sent = [] \<rparr>)
     = Inr (JArr [JObj [(''id'', JStr ''u1'')]])
   \<and> (\<exists>result.
        fst (getCredits int_runtime
          (always \<lparr> status = 200, statusText = ''OK'',
                    json = Some (JObj [(''balance'', JObj []),
                                       (''usageHistory'', JArr [JObj [(''id'', JStr ''u1'')]])]) \<rparr>)
          ''p'' (Some True) None
          \<lparr> this = \<lparr> apiKey = ''key'', baseUrl = ''https://host'' \<rparr>, sent = [] \<rparr>) = Inr result
        \<and> get_prop result ''usageHistory'' = Inr (JArr [JObj [(''id'', JStr ''u1'')]]))"
proof -
  have run: "fst (getCreditUsage int_runtime
         (always \<lparr> status = 200, statusText = ''OK'',
                   json = Some (JObj [(''balance'', JObj []),
                                      (''usageHistory'', JArr [JObj [(''id'', JStr ''u1'')]])]) \<rparr>)
         ''p'' None
         \<lparr> this = \<lparr> apiKey = ''key'', baseUrl = ''https://host'' \<rparr>, sent = [] \<rparr>)
     = Inr (JArr [JObj [(''id'', JStr ''u1'')]])"
    by code_simp
  from getCreditUsage_result [OF run] obtain result v
    where "fst (getCredits int_runtime
          (always \<lparr> status = 200, statusText = ''OK'',
                    json = Some (JObj [(''balance'', JObj []),
                                       (''usageHistory'', JArr [JObj [(''id'', JStr ''u1'')]])]) \<rparr>)
          ''p'' (Some True) None
          \<lparr> this = \<lparr> apiKey = ''key'', baseUrl = ''https://host'' \<rparr>, sent = [] \<rparr>) = Inr result"
      and "get_prop result ''usageHistory'' = Inr v"
      and "truthy int_runtime v \<longrightarrow> JArr [JObj [(''id'', JStr ''u1'')]] = v"
      and "v = JUndefined \<or> v = JNull \<or> v = JBool False \<or> v = JStr []
          \<or> (\<exists>n. v = JNum n \<and> \<not> num_truthy int_runtime n)
          \<longrightarrow> JArr [JObj [(''id'', JStr ''u1'')]] = (JArr [] :: int jsval)"
    by blast
  moreover from this have "v = JArr [JObj [(''id'', JStr ''u1'')]]"
    by (cases v) auto
  ultimately show ?thesis using run by blast
qed

subsection \<open>Query strings of the listing methods\<close>

lemma join_nonempty: "x \<noteq> [] \<Longrightarrow> join sep (x # xs) \<noteq> []"
  by (cases xs) simp_all

lemma URLSearchParams_toString_empty_iff: "URLSearchParams_toString ps = [] \<longleftrightarrow> ps = []"
proof (cases ps)
  case Nil
  then show ?thesis by (simp add: URLSearchParams_toString_def)
next
  case (Cons p qs)
  obtain k v where "p = (k, v)" by (cases p)
  with Cons show ?thesis
    by (simp add: URLSearchParams_toString_def join_nonempty)
qed

lemma with_query_params:
  "with_query path (URLSearchParams_toString ps)
     = (if ps = [] then path else path @ ''?'' @ URLSearchParams_toString ps)"
  by (simp add: with_query_def URLSearchParams_toString_empty_iff)

text \<open>
  The filter set with the one field \<^verbatim>\<open>offset: 0\<close>: the field is present, the guard
  \<^verbatim>\<open>if (filters?.offset)\<close> is false of it, and no parameter is rendered.
\<close>

theorem getSuggestions_offset_zero_counterexample:
  "getSuggestions_params int_runtime
     (Some \<lparr> sf_status = None, sf_limit = None, sf_offset = Some 0 \<rparr>) = []
   \<and> getSuggestions_endpoint int_runtime ''p''
     (Some \<lparr> sf_status = None, sf_limit = None, sf_offset = Some 0 \<rparr>)
     = ''/api/projects/p/suggestions''"
  by code_simp

lemma str_param_cases:
  "str_param name v = [] \<or> (\<exists>s. v = Some s \<and> s \<noteq> [] \<and> str_param name v = [(name, s)])"
  by (auto simp add: str_param_def split: option.splits)

lemma num_param_cases:
  "num_param rt name v = []
   \<or> (\<exists>n. v = Some n \<and> num_truthy rt n \<and> num_param rt name v = [(name, num_toString rt n)])"
  by (auto simp add: num_param_def split: option.splits)

lemma str_param_mem:
  "(k, s) \<in> set (str_param name v) \<longleftrightarrow> k = name \<and> v = Some s \<and> s \<noteq> []"
  by (auto simp add: str_param_def split: option.splits)

lemma num_param_mem:
  "(k, t) \<in> set (num_param rt name v)
     \<longleftrightarrow> k = name \<and> (\<exists>n. v = Some n \<and> num_truthy rt n \<and> t = num_toString rt n)"
  by (auto simp add: num_param_def split: option.splits)

lemma str_param_names:
  "map fst (str_param name v) = (if \<exists>s. v = Some s \<and> s \<noteq> [] then [name] else [])"
  by (cases v) (simp_all add: str_param_def)

lemma num_param_names:
  "map fst (num_param rt name v) = (if \<exists>n. v = Some n \<and> num_truthy rt n then [name] else [])"
  by (cases v) (simp_all add: num_param_def)

lemma getSuggestions_params_names:
  "map fst (getSuggestions_params rt filters)
     = (if \<exists>s. Option.bind filters sf_status = Some s \<and> s \<noteq> [] then [''status''] else [])
       @ (if \<exists>n. Option.bind filters sf_limit = Some n \<and> num_truthy rt n then [''limit''] else [])
       @ (if \<exists>n. Option.bind filters sf_offset = Some n \<and> num_truthy rt n then [''offset''] else [])"
  unfolding getSuggestions_params_def Let_def map_append str_param_names num_param_names
  by simp

lemma getImplementations_params_names:
  "map fst (getImplementations_params rt filters)
     = (if \<exists>s. Option.bind filters if_status = Some s \<and> s \<noteq> [] then [''status''] else [])
       @ (if \<exists>s. Option.bind filters if_platform = Some s \<and> s \<noteq> [] then [''platform''] else [])
       @ (if \<exists>n. Option.bind filters if_limit = Some n \<and> num_truthy rt n then [''limit''] else [])
       @ (if \<exists>n. Option.bind filters if_offset = Some n \<and> num_truthy rt n then [''offset''] else [])"
  unfolding getImplementations_params_def Let_def map_append str_param_names num_param_names
  by simp

lemma getSuggestions_params_mem:
  "(k, t) \<in> set (getSuggestions_params rt filters) \<longleftrightarrow>
     (k = ''status'' \<and> Option.bind filters sf_status = Some t \<and> t \<noteq> [])
     \<or> (k = ''limit'' \<and> (\<exists>n. Option.bind filters sf_limit = Some n \<and> num_truthy rt n
                            \<and> t = num_toString rt n))
     \<or> (k = ''offset'' \<and> (\<exists>n. Option.bind filters sf_offset = Some n \<and> num_truthy rt n
                             \<and> t = num_toString rt n))"
  unfolding getSuggestions_params_def Let_def set_append Un_iff str_param_mem num_param_mem
  by simp

lemma getImplementations_params_mem:
  "(k, t) \<in> set (getImplementations_params rt filters) \<longleftrightarrow>
     (k = ''status'' \<and> Option.bind filters if_status = Some t \<and> t \<noteq> [])
     \<or> (k = ''platform'' \<and> Option.bind filters if_platform = Some t \<and> t \<noteq> [])
     \<or> (k = ''limit'' \<and> (\<exists>n. Option.bind filters if_limit = Some n \<and> num_truthy rt n
                            \<and> t = num_toString rt n))
     \<or> (k = ''offset'' \<and> (\<exists>n. Option.bind filters if_offset = Some n \<and> num_truthy rt n
                             \<and> t = num_toString rt n))"
  unfolding getImplementations_params_def Let_def set_append Un_iff str_param_mem num_param_mem
  by simp

lemma no_filters_no_params:
  "getSuggestions_params rt None = []"
  "getSuggestions_params rt (Some \<lparr> sf_status = None, sf_limit = None, sf_offset = None \<rparr>) = []"
  "getImplementations_params rt None = []"
  "getImplementations_params rt
     (Some \<lparr> if_status = None, if_platform = None, if_limit = None, if_offset = None \<rparr>) = []"
  by (simp_all add: getSuggestions_params_def getImplementations_params_def str_param_def
      num_param_def)

text \<open>
  C3 (as amended). For \<^verbatim>\<open>getSuggestions\<close> and \<^verbatim>\<open>getImplementations\<close>: a filter field is
  rendered when its value is truthy, that is a non-empty string, or a number other than 0
  and NaN. With no filter argument, or with no field present, there is no parameter. The
  names of the parameters are those of the truthy fields, each once, in the order status,
  (platform,) limit, offset; the value of a parameter is the string itself, or the number
  as text; an absent or falsy field contributes none. With no parameter the endpoint is
  the path alone (and has no question mark when the project id has none); otherwise it is
  the path, a question mark and the query string, which is then not empty.
\<close>

theorem listing_query_strings:
  "getSuggestions_params rt None = []
   \<and> getSuggestions_params rt (Some \<lparr> sf_status = None, sf_limit = None, sf_offset = None \<rparr>) = []
   \<and> map fst (getSuggestions_params rt sf)
       = (if \<exists>s. Option.bind sf sf_status = Some s \<and> s \<noteq> [] then [''status''] else [])
         @ (if \<exists>n. Option.bind sf sf_limit = Some n \<and> num_truthy rt n then [''limit''] else [])
         @ (if \<exists>n. Option.bind sf sf_offset = Some n \<and> num_truthy rt n then [''offset''] else [])
   \<and> (\<forall>k t. (k, t) \<in> set (getSuggestions_params rt sf) \<longleftrightarrow>
         (k = ''status'' \<and> Option.bind sf sf_status = Some t \<and> t \<noteq> [])
         \<or> (k = ''limit'' \<and> (\<exists>n. Option.bind sf sf_limit = Some n \<and> num_truthy rt n
                                \<and> t = num_toString rt n))
         \<or> (k = ''offset'' \<and> (\<exists>n. Option.bind sf sf_offset = Some n \<and> num_truthy rt n
                                 \<and> t = num_toString rt n)))
   \<and> getSuggestions_endpoint rt projectId sf
       = (if getSuggestions_params rt sf = [] then ''/api/projects/'' @ projectId @ ''/suggestions''
          else ''/api/projects/'' @ projectId @ ''/suggestions'' @ ''?''
                 @ URLSearchParams_toString (getSuggestions_params rt sf))
   \<and> (URLSearchParams_toString (getSuggestions_params rt sf) = []
        \<longleftrightarrow> getSuggestions_params rt sf = [])
   \<and> (getSuggestions_params rt sf = [] \<and> CHR ''?'' \<notin> set projectId
        \<longrightarrow> CHR ''?'' \<notin> set (getSuggestions_endpoint rt projectId sf))
   \<and> getImplementations_params rt None = []
   \<and> getImplementations_params rt
        (Some \<lparr> if_status = None, if_platform = None, if_limit = None, if_offset = None \<rparr>) = []
   \<and> map fst (getImplementations_params rt imf)
       = (if \<exists>s. Option.bind imf if_status = Some s \<and> s \<noteq> [] then [''status''] else [])
         @ (if \<exists>s. Option.bind imf if_platform = Some s \<and> s \<noteq> [] then [''platform''] else [])
         @ (if \<exists>n. Option.bind imf if_limit = Some n \<and> num_truthy rt n then [''limit''] else [])
         @ (if \<exists>n. Option.bind imf if_offset = Some n \<and> num_truthy rt n then [''offset''] else [])
   \<and> (\<forall>k t. (k, t) \<in> set (getImplementations_params rt imf) \<longleftrightarrow>
         (k = ''status'' \<and> Option.bind imf if_status = Some t \<and> t \<noteq> [])
         \<or> (k = ''platform'' \<and> Option.bind imf if_platform = Some t \<and> t \<noteq> [])
         \<or> (k = ''limit'' \<and> (\<exists>n. Option.bind imf if_limit = Some n \<and> num_truthy rt n
                                \<and> t = num_toString rt n))
         \<or> (k = ''offset'' \<and> (\<exists>n. Option.bind imf if_offset = Some n \<and> num_truthy rt n
                                 \<and> t = num_toString rt n)))
   \<and> getImplementations_endpoint rt projectId imf
       = (if getImplementations_params rt imf = []
          then ''/api/projects/'' @ projectId @ ''/implementations''
          else ''/api/projects/'' @ projectId @ ''/implementations'' @ ''?''
                 @ URLSearchParams_toString (getImplementations_params rt imf))
   \<and> (URLSearchParams_toString (getImplementations_params rt imf) = []
        \<longleftrightarrow> getImplementations_params rt imf = [])
   \<and> (getImplementations_params rt imf = [] \<and> CHR ''?'' \<notin> set projectId
        \<longrightarrow> CHR ''?'' \<notin> set (getImplementations_endpoint rt projectId imf))"
proof -
  have s_end: "getSuggestions_endpoint rt projectId sf
       = (if getSuggestions_params rt sf = [] then ''/api/projects/'' @ projectId @ ''/suggestions''
          else ''/api/projects/'' @ projectId @ ''/suggestions'' @ ''?''
                 @ URLSearchParams_toString (getSuggestions_params rt sf))"
    unfolding getSuggestions_endpoint_def with_query_params by simp
  have i_end: "getImplementations_endpoint rt projectId imf
       = (if getImplementations_params rt imf = []
          then ''/api/projects/'' @ projectId @ ''/implementations''
          else ''/api/projects/'' @ projectId @ ''/implementations'' @ ''?''
                 @ URLSearchParams_toString (getImplementations_params rt imf))"
    unfolding getImplementations_endpoint_def with_query_params by simp
  have s_q: "getSuggestions_params rt sf = [] \<and> CHR ''?'' \<notin> set projectId
        \<longrightarrow> CHR ''?'' \<notin> set (getSuggestions_endpoint rt projectId sf)"
    unfolding s_end by simp
  have i_q: "getImplementations_params rt imf = [] \<and> CHR ''?'' \<notin> set projectId
        \<longrightarrow> CHR ''?'' \<notin> set (getImplementations_endpoint rt projectId imf)"
    unfolding i_end by simp
  have s_mem: "\<forall>k t. (k, t) \<in> set (getSuggestions_params rt sf) \<longleftrightarrow>
         (k = ''status'' \<and> Option.bind sf sf_status = Some t \<and> t \<noteq> [])
         \<or> (k = ''limit'' \<and> (\<exists>n. Option.bind sf sf_limit = Some n \<and> num_truthy rt n
                                \<and> t = num_toString rt n))
         \<or> (k = ''offset'' \<and> (\<exists>n. Option.bind sf sf_offset = Some n \<and> num_truthy rt n
                                 \<and> t = num_toString rt n))"
    using getSuggestions_params_mem [of _ _ rt sf] by blast
  have i_mem: "\<forall>k t. (k, t) \<in> set (getImplementations_params rt imf) \<longleftrightarrow>
         (k = ''status'' \<and> Option.bind imf if_status = Some t \<and> t \<noteq> [])
         \<or> (k = ''platform'' \<and> Option.bind imf if_platform = Some t \<and> t \<noteq> [])
         \<or> (k = ''limit'' \<and> (\<exists>n. Option.bind imf if_limit = Some n \<and> num_truthy rt n
                                \<and> t = num_toString rt n))
         \<or> (k = ''offset'' \<and> (\<exists>n. Option.bind imf if_offset = Some n \<and> num_truthy rt n
                                 \<and> t = num_toString rt n))"
    using getImplementations_params_mem [of _ _ rt imf] by blast
  show ?thesis
    by (intro conjI no_filters_no_params getSuggestions_params_names s_mem s_end s_q
        getImplementations_params_names i_mem i_end i_q URLSearchParams_toString_empty_iff)
qed

lemma example_query:
  "getSuggestions_params int_runtime
     (Some \<lparr> sf_status = Some ''pending'', sf_limit = Some 10, sf_offset = Some 0 \<rparr>)
     = [(''status'', ''pending''), (''limit'', ''10'')]"
  "URLSearchParams_toString [(''status'', ''pending''), (''limit'', ''10'')]
     = ''status=pending&limit=10''"
  by code_simp+

theorem listing_query_strings_witness:
  "map fst (getSuggestions_params int_runtime
       (Some \<lparr> sf_status = Some ''pending'', sf_limit = Some 10, sf_offset = Some 0 \<rparr>))
     = [''status'', ''limit'']
   \<and> getSuggestions_endpoint int_runtime ''p''
       (Some \<lparr> sf_status = Some ''pending'', sf_limit = Some 10, sf_offset = Some 0 \<rparr>)
     = ''/api/projects/p/suggestions?status=pending&limit=10''
   \<and> getImplementations_endpoint int_runtime ''p'' None = ''/api/projects/p/implementations''
   \<and> CHR ''?'' \<notin> set (getImplementations_endpoint int_runtime ''p'' None)"
  using listing_query_strings [of int_runtime
      "Some \<lparr> sf_status = Some ''pending'', sf_limit = Some 10, sf_offset = Some 0 \<rparr>"
      "''p''" None]
  by (simp add: example_query)

end
